theory Spec2Isabelle
  imports Main "HOL-Library.Multiset"
begin

section \<open>Skull King bot competition: bots and competition runner\<close>

text \<open>
  The development embeds \<^verbatim>\<open>example_bots.py\<close> (the four example bots) and the decision
  points of \<^verbatim>\<open>main.py\<close> (the competition runner). The modules \<^verbatim>\<open>cards.py\<close>,
  \<^verbatim>\<open>player.py\<close> and \<^verbatim>\<open>game_engine.py\<close> are imported by both files; what is needed
  of them is modelled from the specification and marked as such.
\<close>

subsection \<open>Python values and exceptions\<close>

text \<open>
  Exceptions are values. \<open>SystemExit\<close> and \<open>KeyboardInterrupt\<close> derive from
  \<^verbatim>\<open>BaseException\<close> only, so an \<^verbatim>\<open>except Exception\<close> clause does not catch them;
  \<open>OtherException\<close> stands for any further subclass of \<^verbatim>\<open>Exception\<close> a bot may raise,
  with its message.
\<close>

datatype exn =
    IndexError
  | KeyError
  | ValueError
  | StopIteration
  | IllegalMoveError
  | AssertionError
  | AttributeError
  | OtherException string
  | SystemExit
  | KeyboardInterrupt

fun is_Exception :: "exn \<Rightarrow> bool" where
  "is_Exception SystemExit = False"
| "is_Exception KeyboardInterrupt = False"
| "is_Exception _ = True"

text \<open>
  Modelled from the spec: the card model of \<^verbatim>\<open>cards.py\<close> (section 3, Card). A card has a
  \<open>card_type\<close>, a \<open>suit\<close> (only NUMBER cards carry one; the enumeration of suits is a
  type parameter) and an integer value (field \<^verbatim>\<open>value\<close> in the source). Equality is by
  type, suit and value.
\<close>

datatype CardType = NUMBER | ESCAPE | PIRATE | MERMAID | SKULL_KING

record 's Card =
  card_type :: CardType
  suit :: "'s option"
  value' :: int

text \<open>
  Modelled from the spec: \<^verbatim>\<open>player.py\<close> (section 3, Player). A player is a name with an
  identity; two players with the same name are still different keys of a mapping, which
  the identity token \<open>pid\<close> provides.
\<close>

record Player =
  pid :: nat
  name :: string

subsection \<open>The library functions the bots call\<close>

text \<open>
  \<^verbatim>\<open>random.randint(a, b)\<close> returns some integer of \<open>[a, b]\<close> and raises ValueError on an
  empty range; \<^verbatim>\<open>random.choice(seq)\<close> returns some element and raises IndexError on an
  empty sequence. The generator's draw is the explicit argument \<open>r\<close>; a property of a
  random bot is a property for every draw.
\<close>

definition randint :: "int \<Rightarrow> int \<Rightarrow> nat \<Rightarrow> exn + int" where
  "randint a b r = (if b < a then Inl ValueError else Inr (a + int r mod (b - a + 1)))"

definition choice :: "'a list \<Rightarrow> nat \<Rightarrow> exn + 'a" where
  "choice seq r = (if seq = [] then Inl IndexError else Inr (seq ! (r mod length seq)))"

text \<open>\<^verbatim>\<open>xs[0]\<close>: IndexError on the empty list.\<close>

definition index0 :: "'a list \<Rightarrow> exn + 'a" where
  "index0 xs = (case xs of [] \<Rightarrow> Inl IndexError | x # _ \<Rightarrow> Inr x)"

text \<open>
  \<^verbatim>\<open>min(xs, key=k)\<close> and \<^verbatim>\<open>max(xs, key=k)\<close>: the first element whose key is least
  (greatest); ValueError on the empty list.
\<close>

fun min_from :: "('a \<Rightarrow> int) \<Rightarrow> 'a \<Rightarrow> 'a list \<Rightarrow> 'a" where
  "min_from key best [] = best"
| "min_from key best (x # xs) = min_from key (if key x < key best then x else best) xs"

fun max_from :: "('a \<Rightarrow> int) \<Rightarrow> 'a \<Rightarrow> 'a list \<Rightarrow> 'a" where
  "max_from key best [] = best"
| "max_from key best (x # xs) = max_from key (if key best < key x then x else best) xs"

definition py_min :: "'a list \<Rightarrow> ('a \<Rightarrow> int) \<Rightarrow> exn + 'a" where
  "py_min xs key = (case xs of [] \<Rightarrow> Inl ValueError | x # rest \<Rightarrow> Inr (min_from key x rest))"

definition py_max :: "'a list \<Rightarrow> ('a \<Rightarrow> int) \<Rightarrow> exn + 'a" where
  "py_max xs key = (case xs of [] \<Rightarrow> Inl ValueError | x # rest \<Rightarrow> Inr (max_from key x rest))"

text \<open>\<^verbatim>\<open>next(c for c in xs if p(c))\<close>: the first match; StopIteration when there is none.\<close>

definition py_next :: "('a \<Rightarrow> bool) \<Rightarrow> 'a list \<Rightarrow> exn + 'a" where
  "py_next p xs = (case find p xs of None \<Rightarrow> Inl StopIteration | Some c \<Rightarrow> Inr c)"

text \<open>\<^verbatim>\<open>d.get(k, default)\<close>.\<close>

definition dict_get :: "('k \<rightharpoonup> 'v) \<Rightarrow> 'k \<Rightarrow> 'v \<Rightarrow> 'v" where
  "dict_get d k dflt = (case d k of None \<Rightarrow> dflt | Some v \<Rightarrow> v)"

text \<open>\<^verbatim>\<open>sum(1 for x in xs if p(x))\<close>.\<close>

definition count_if :: "('a \<Rightarrow> bool) \<Rightarrow> 'a list \<Rightarrow> int" where
  "count_if p xs = sum_list (map (\<lambda>x. 1) (filter p xs))"

subsection \<open>The bots of example\_bots.py\<close>

type_synonym 's trick_list = "(Player \<times> 's Card) list"

text \<open>DummyPlayer and RandomBot: random bid, random card of the hand.\<close>

definition DummyPlayer_make_bid ::
  "'s Card list \<Rightarrow> int \<Rightarrow> (Player \<rightharpoonup> int) \<Rightarrow> nat \<Rightarrow> exn + int" where
  "DummyPlayer_make_bid hand round_num previous_bids r = randint 0 round_num r"

definition DummyPlayer_play_card ::
  "'s Card list \<Rightarrow> 's trick_list \<Rightarrow> 's trick_list list \<Rightarrow> (Player \<rightharpoonup> int) \<Rightarrow>
   (Player \<rightharpoonup> int) \<Rightarrow> int \<Rightarrow> nat \<Rightarrow> exn + 's Card" where
  "DummyPlayer_play_card hand current_trick previous_tricks bids tricks_won round_num r =
     choice hand r"

definition RandomBot_make_bid ::
  "'s Card list \<Rightarrow> int \<Rightarrow> (Player \<rightharpoonup> int) \<Rightarrow> nat \<Rightarrow> exn + int" where
  "RandomBot_make_bid hand round_num previous_bids r = randint 0 round_num r"

definition RandomBot_play_card ::
  "'s Card list \<Rightarrow> 's trick_list \<Rightarrow> 's trick_list list \<Rightarrow> (Player \<rightharpoonup> int) \<Rightarrow>
   (Player \<rightharpoonup> int) \<Rightarrow> int \<Rightarrow> nat \<Rightarrow> exn + 's Card" where
  "RandomBot_play_card hand current_trick previous_tricks bids tricks_won round_num r =
     choice hand r"

text \<open>ConservativeBot: bids 0 with enough escapes, else 1; plays escapes, then low cards.\<close>

definition ConservativeBot_make_bid ::
  "'s Card list \<Rightarrow> int \<Rightarrow> (Player \<rightharpoonup> int) \<Rightarrow> int" where
  "ConservativeBot_make_bid hand round_num previous_bids =
     (let escape_count = count_if (\<lambda>card. card_type card = ESCAPE) hand in
      if round_num \<le> escape_count then 0 else min 1 round_num)"

definition ConservativeBot_play_card ::
  "'s Card list \<Rightarrow> 's trick_list \<Rightarrow> 's trick_list list \<Rightarrow> (Player \<rightharpoonup> int) \<Rightarrow>
   (Player \<rightharpoonup> int) \<Rightarrow> int \<Rightarrow> nat \<Rightarrow> exn + 's Card" where
  "ConservativeBot_play_card hand current_trick previous_tricks bids tricks_won round_num r =
     (let escape_cards = filter (\<lambda>c. card_type c = ESCAPE) hand in
      if escape_cards \<noteq> [] then index0 escape_cards
      else
        let number_cards = filter (\<lambda>c. card_type c = NUMBER) hand in
        if number_cards \<noteq> [] then py_min number_cards value'
        else choice hand r)"

text \<open>AggressiveBot: bids its strong cards, at least 1; plays strong cards while it needs tricks.\<close>

definition AggressiveBot_make_bid ::
  "'s Card list \<Rightarrow> int \<Rightarrow> (Player \<rightharpoonup> int) \<Rightarrow> int" where
  "AggressiveBot_make_bid hand round_num previous_bids =
     (let strong_cards =
            count_if (\<lambda>card. card_type card \<in> set [PIRATE, MERMAID, SKULL_KING] \<or>
                             (card_type card = NUMBER \<and> 10 \<le> value' card)) hand;
          bid = min strong_cards round_num
      in max 1 bid)"

definition AggressiveBot_play_card ::
  "Player \<Rightarrow> 's Card list \<Rightarrow> 's trick_list \<Rightarrow> 's trick_list list \<Rightarrow> (Player \<rightharpoonup> int) \<Rightarrow>
   (Player \<rightharpoonup> int) \<Rightarrow> int \<Rightarrow> nat \<Rightarrow> exn + 's Card" where
  "AggressiveBot_play_card self hand current_trick previous_tricks bids tricks_won round_num r =
     (let tricks_needed = dict_get bids self 0 - dict_get tricks_won self 0 in
      if 0 < tricks_needed \<and> current_trick \<noteq> [] then
        let special_cards =
              filter (\<lambda>c. card_type c \<in> set [SKULL_KING, PIRATE, MERMAID]) hand in
        if special_cards \<noteq> [] then
          if list_ex (\<lambda>c. card_type c = SKULL_KING) special_cards
          then py_next (\<lambda>c. card_type c = SKULL_KING) special_cards
          else if list_ex (\<lambda>c. card_type c = PIRATE) special_cards
          then py_next (\<lambda>c. card_type c = PIRATE) special_cards
          else index0 special_cards
        else
          let number_cards = filter (\<lambda>c. card_type c = NUMBER) hand in
          if number_cards \<noteq> [] then py_max number_cards value'
          else choice hand r
      else
        let escape_cards = filter (\<lambda>c. card_type c = ESCAPE) hand in
        if escape_cards \<noteq> [] then index0 escape_cards
        else
          let number_cards = filter (\<lambda>c. card_type c = NUMBER) hand in
          if number_cards \<noteq> [] then py_min number_cards value'
          else choice hand r)"

text \<open>
  The classes of the module, and the dispatch of the two methods of the Player contract
  on the class of the receiver. \<open>self\<close> is the receiver's identity, \<open>r\<close> the draw of the
  random generator (read by the random bots only).
\<close>

datatype Bot = DummyPlayer | RandomBot | ConservativeBot | AggressiveBot

fun make_bid ::
  "Bot \<Rightarrow> 's Card list \<Rightarrow> int \<Rightarrow> (Player \<rightharpoonup> int) \<Rightarrow> nat \<Rightarrow> exn + int" where
  "make_bid DummyPlayer hand round_num previous_bids r =
     DummyPlayer_make_bid hand round_num previous_bids r"
| "make_bid RandomBot hand round_num previous_bids r =
     RandomBot_make_bid hand round_num previous_bids r"
| "make_bid ConservativeBot hand round_num previous_bids r =
     Inr (ConservativeBot_make_bid hand round_num previous_bids)"
| "make_bid AggressiveBot hand round_num previous_bids r =
     Inr (AggressiveBot_make_bid hand round_num previous_bids)"

fun play_card ::
  "Bot \<Rightarrow> Player \<Rightarrow> 's Card list \<Rightarrow> 's trick_list \<Rightarrow> 's trick_list list \<Rightarrow>
   (Player \<rightharpoonup> int) \<Rightarrow> (Player \<rightharpoonup> int) \<Rightarrow> int \<Rightarrow> nat \<Rightarrow> exn + 's Card" where
  "play_card DummyPlayer self hand ct pt bids tw round_num r =
     DummyPlayer_play_card hand ct pt bids tw round_num r"
| "play_card RandomBot self hand ct pt bids tw round_num r =
     RandomBot_play_card hand ct pt bids tw round_num r"
| "play_card ConservativeBot self hand ct pt bids tw round_num r =
     ConservativeBot_play_card hand ct pt bids tw round_num r"
| "play_card AggressiveBot self hand ct pt bids tw round_num r =
     AggressiveBot_play_card self hand ct pt bids tw round_num r"

subsection \<open>The game engine (game\_engine.py)\<close>

text \<open>
  Modelled from the spec: the round state of \<^verbatim>\<open>game_engine.py\<close> (section 3, RoundState
  and Trick). A trick is the ordered list of (player, card) pairs in play order;
  \<open>current_trick\<close> is the trick in progress, or absent.
\<close>

record 's RoundState =
  hands :: "Player \<rightharpoonup> 's Card list"
  bids :: "Player \<rightharpoonup> int"
  tricks :: "'s trick_list list"
  current_trick :: "'s trick_list option"
  tricks_won :: "Player \<rightharpoonup> int"

text \<open>
  Modelled from the spec: the game object \<^verbatim>\<open>SkullKingGame(bots, num_rounds)\<close> (sections 3
  and 4.4): the players in seating order, the number of rounds, the current round, the
  designated trump suit and the state of the round being played.
\<close>

record 's SkullKingGame =
  players :: "Player list"
  num_rounds :: int
  current_round :: int
  trump :: 's
  state :: "'s RoundState"

text \<open>
  Modelled from the spec: the ranking of section 4.1, missing with \<^verbatim>\<open>game_engine.py\<close>.
  The rules are applied card by card in play order: \<open>beats trmp led c w\<close> says that
  the card \<open>c\<close>, played later, takes the trick from the card \<open>w\<close> that was winning so far.
  \<^item> ESCAPE never takes a trick from an earlier card (rule 5).
  \<^item> SKULL\_KING beats everything except MERMAID (rule 1); PIRATE beats MERMAID, NUMBER
    and ESCAPE and is beaten by SKULL\_KING (rule 3); MERMAID beats SKULL\_KING, NUMBER
    and ESCAPE and is beaten by PIRATE (rule 2).
  \<^item> Between equal-ranked special cards the one played earliest wins: the later one does
    not beat the earlier one.
  \<^item> Among NUMBER cards (rule 4) trump beats non-trump, within one suit the higher value
    wins, and a card that is neither of the suit led nor trump cannot win. The suit led
    is the suit of the first NUMBER card of the trick (special cards carry no suit).
\<close>

definition led_suit :: "'s trick_list \<Rightarrow> 's option" where
  "led_suit trick =
     (case find (\<lambda>pc. card_type (snd pc) = NUMBER) trick of
        None \<Rightarrow> None
      | Some pc \<Rightarrow> suit (snd pc))"

text \<open>
  Modelled from the spec: rule 4 between two NUMBER cards, the later \<open>c\<close> against the
  winning \<open>w\<close>: in one suit the higher value wins; across suits only trump takes the
  trick (the winning card is of the suit led or trump).
\<close>

definition number_beats :: "'s \<Rightarrow> 's Card \<Rightarrow> 's Card \<Rightarrow> bool" where
  "number_beats trmp c w =
     (if suit c = suit w then value' w < value' c
      else suit c = Some trmp)"

text \<open>
  Modelled from the spec: rules 1, 2, 3 and 5 and the tie-break, on the ranks alone:
  whether a later card of the first rank takes the trick from a winning card of the
  second.
\<close>

fun beats_type :: "CardType \<Rightarrow> CardType \<Rightarrow> bool" where
  "beats_type ESCAPE w = False"
| "beats_type SKULL_KING w = (w \<noteq> MERMAID \<and> w \<noteq> SKULL_KING)"
| "beats_type MERMAID w = (w = SKULL_KING \<or> w = NUMBER \<or> w = ESCAPE)"
| "beats_type PIRATE w = (w = MERMAID \<or> w = NUMBER \<or> w = ESCAPE)"
| "beats_type NUMBER w = (w = ESCAPE)"

text \<open>
  Modelled from the spec: the ranking of two cards; a NUMBER card takes the trick from an
  ESCAPE only when it is of the suit led or trump.
\<close>

definition beats :: "'s \<Rightarrow> 's option \<Rightarrow> 's Card \<Rightarrow> 's Card \<Rightarrow> bool" where
  "beats trmp led c w =
     (if card_type c = NUMBER \<and> card_type w = NUMBER then number_beats trmp c w
      else if card_type c = NUMBER then
        beats_type NUMBER (card_type w) \<and> (suit c = led \<or> suit c = Some trmp)
      else beats_type (card_type c) (card_type w))"

text \<open>
  Modelled from the spec: the card-by-card evaluation of a trick: the winning pair so
  far, against each later pair in play order.
\<close>

fun best_from ::
  "'s \<Rightarrow> 's option \<Rightarrow> Player \<times> 's Card \<Rightarrow> 's trick_list \<Rightarrow> Player \<times> 's Card" where
  "best_from trmp led best [] = best"
| "best_from trmp led best (pc # rest) =
     best_from trmp led (if beats trmp led (snd pc) (snd best) then pc else best) rest"

text \<open>
  Modelled from the spec: the winner of a trick (section 4.1), a pure function of the
  ordered list of (player, card) pairs. Resolving an empty trick is a contract violation
  (section 7) and is asserted.
\<close>

definition trick_winner :: "'s \<Rightarrow> 's trick_list \<Rightarrow> exn + Player" where
  "trick_winner trmp trick =
     (case trick of
        [] \<Rightarrow> Inl AssertionError
      | pc # rest \<Rightarrow> Inr (fst (best_from trmp (led_suit trick) pc rest)))"

text \<open>
  Modelled from the spec: the special cards of section 4.2 (ESCAPE, PIRATE, MERMAID,
  SKULL\_KING), always legal.
\<close>

definition is_special :: "'s Card \<Rightarrow> bool" where
  "is_special c = (card_type c \<in> set [ESCAPE, PIRATE, MERMAID, SKULL_KING])"

text \<open>Modelled from the spec: a card matching the suit led (section 4.2).\<close>

definition follows_suit :: "'s option \<Rightarrow> 's Card \<Rightarrow> bool" where
  "follows_suit led c = (card_type c = NUMBER \<and> led \<noteq> None \<and> suit c = led)"

text \<open>
  Modelled from the spec: \<^verbatim>\<open>get_legal_cards(player)\<close> of the round state (section 4.2),
  missing with \<^verbatim>\<open>game_engine.py\<close>. With no card played in the current trick every card
  of the hand is legal. Otherwise the cards of the suit led and the special cards are
  legal; when the hand holds neither, every card of the hand is legal. A player without
  a hand is a KeyError of the \<open>hands\<close> mapping.
\<close>

definition get_legal_cards :: "'s RoundState \<Rightarrow> Player \<Rightarrow> exn + 's Card list" where
  "get_legal_cards st player =
     (case hands st player of
        None \<Rightarrow> Inl KeyError
      | Some hand \<Rightarrow>
          (case current_trick st of
             None \<Rightarrow> Inr hand
           | Some [] \<Rightarrow> Inr hand
           | Some trick \<Rightarrow>
               let led = led_suit trick;
                   allowed = filter (\<lambda>c. follows_suit led c \<or> is_special c) hand
               in if allowed = [] then Inr hand else Inr allowed))"

text \<open>
  Modelled from the spec: \<^verbatim>\<open>play_card(player, card)\<close> of the engine (section 4.2),
  missing with \<^verbatim>\<open>game_engine.py\<close>: IllegalMoveError when the card is not legal;
  otherwise the card leaves the hand and \<open>(player, card)\<close> is appended to the current
  trick; a trick that is full (as many cards as players) is resolved, its winner's count
  of tricks is incremented, the trick is appended to \<open>tricks\<close> and \<open>current_trick\<close> is
  cleared. Playing with no trick in progress is a contract violation and is asserted.
\<close>

definition game_play_card ::
  "'s SkullKingGame \<Rightarrow> Player \<Rightarrow> 's Card \<Rightarrow> exn + 's SkullKingGame" where
  "game_play_card game player c =
     (case get_legal_cards (state game) player of
        Inl e \<Rightarrow> Inl e
      | Inr legal \<Rightarrow>
          if c \<notin> set legal then Inl IllegalMoveError
          else
            (case (hands (state game) player, current_trick (state game)) of
               (Some hand, Some ct) \<Rightarrow>
                 let st = (state game)\<lparr>hands := (hands (state game))(player \<mapsto> remove1 c hand)\<rparr>;
                     trick = ct @ [(player, c)]
                 in if length trick \<noteq> length (players game)
                    then Inr (game\<lparr>state := st\<lparr>current_trick := Some trick\<rparr>\<rparr>)
                    else
                      (case trick_winner (trump game) trick of
                         Inl e \<Rightarrow> Inl e
                       | Inr winner \<Rightarrow>
                           Inr (game\<lparr>state := st
                                  \<lparr>tricks_won :=
                                     (tricks_won st)(winner \<mapsto> dict_get (tricks_won st) winner 0 + 1),
                                   tricks := tricks st @ [trick],
                                   current_trick := None\<rparr>\<rparr>))
             | _ \<Rightarrow> Inl AssertionError))"

text \<open>
  Modelled from the spec: the base scoring rule of \<^verbatim>\<open>calculate_scores()\<close> (section 4.3),
  missing with \<^verbatim>\<open>game_engine.py\<close>, for one player: \<open>bonus\<close> is the sum of the card-value
  bonuses the player earned in the tricks won during the round (the bonus table is not
  given by the specification). A negative bid or count of tricks is corrupt state and is
  asserted.
\<close>

definition round_score :: "int \<Rightarrow> int \<Rightarrow> int \<Rightarrow> int \<Rightarrow> exn + int" where
  "round_score round_num bid won bonus =
     (if bid = 0 \<and> won = 0 then Inr (20 * round_num)
      else if bid = 0 \<and> 0 < won then Inr (- 10 * round_num * won)
      else if 0 < bid \<and> won = bid then Inr (20 * bid + bonus)
      else if 0 < bid \<and> won \<noteq> bid then Inr (- 10 * \<bar>bid - won\<bar>)
      else Inl AssertionError)"

text \<open>
  Modelled from the spec: the completed tricks a player won, by re-scanning the tricks of
  the round (section 4.3).
\<close>

definition tricks_won_by :: "'s \<Rightarrow> Player \<Rightarrow> 's trick_list list \<Rightarrow> 's trick_list list" where
  "tricks_won_by trmp player ts = filter (\<lambda>t. trick_winner trmp t = Inr player) ts"

text \<open>
  Modelled from the spec: \<^verbatim>\<open>calculate_scores()\<close> for one player of the game: the bid and
  the tricks won are read from the round state, the bonus is re-derived by scanning the
  completed tricks the player won (section 4.3), with the bonus of one trick given by
  \<open>trick_bonus\<close>.
\<close>

definition calculate_score ::
  "('s trick_list \<Rightarrow> int) \<Rightarrow> 's SkullKingGame \<Rightarrow> Player \<Rightarrow> exn + int" where
  "calculate_score trick_bonus game player =
     (case (bids (state game) player, tricks_won (state game) player) of
        (Some bid, Some won) \<Rightarrow>
          round_score (current_round game) bid won
            (sum_list (map trick_bonus
               (tricks_won_by (trump game) player (tricks (state game)))))
      | _ \<Rightarrow> Inl KeyError)"

subsection \<open>The competition runner (main.py)\<close>

text \<open>
  \<^verbatim>\<open>create_competition_bots()\<close>: the three example bots, each with its class. The entry
  points below take the list of bots as an argument, since the function is where
  competitors add their own bots.
\<close>

definition create_competition_bots :: "(Bot \<times> Player) list" where
  "create_competition_bots =
     [(RandomBot, \<lparr>pid = 0, name = ''RandomBot''\<rparr>),
      (ConservativeBot, \<lparr>pid = 1, name = ''ConservativeBot''\<rparr>),
      (AggressiveBot, \<lparr>pid = 2, name = ''AggressiveBot''\<rparr>)]"

text \<open>
  \<^verbatim>\<open>sorted(items, key=k, reverse=True)\<close>: descending by key; the sort is stable, so items
  with equal keys keep their order.
\<close>

fun insert_desc :: "('a \<Rightarrow> int) \<Rightarrow> 'a \<Rightarrow> 'a list \<Rightarrow> 'a list" where
  "insert_desc key x [] = [x]"
| "insert_desc key x (y # ys) =
     (if key y \<le> key x then x # y # ys else y # insert_desc key x ys)"

definition sorted_reverse :: "'a list \<Rightarrow> ('a \<Rightarrow> int) \<Rightarrow> 'a list" where
  "sorted_reverse xs key = foldr (insert_desc key) xs []"

text \<open>
  What the runner does to the outside, in order: the lines it prints (a formatted line
  is kept as its values), the games it constructs, and an exception that leaves it.
\<close>

datatype event =
    PrintError
  | PrintStarting nat "string list"
  | Construct "Player list" int
  | PrintFinalResults
  | PrintResult nat string int
  | PrintRule
  | PrintGame nat int
  | PrintFinalScores "(string \<times> int) list"
  | PrintStatistics "(string \<times> int \<times> nat) list"
  | Uncaught exn

text \<open>
  \<^verbatim>\<open>run_competition_with_gui\<close>. The guard on the number of bots comes first. The calls
  between the construction of the game and \<^verbatim>\<open>game.get_final_scores()\<close> (the first round's
  set-up and the GUI session, which drives the engine) are the argument \<open>gui_session\<close>:
  it returns the items of the final-scores dictionary in the dictionary's order, or the
  exception that ended the session. The final results are printed sorted by score,
  descending, numbered from 1.
\<close>

definition run_competition_with_gui ::
  "Player list \<Rightarrow> int \<Rightarrow> (Player list \<Rightarrow> int \<Rightarrow> exn + (Player \<times> int) list) \<Rightarrow> event list" where
  "run_competition_with_gui bots n_rounds gui_session =
     (if length bots < 2 then [PrintError]
      else
        [PrintStarting (length bots) (map name bots), Construct bots n_rounds] @
        (case gui_session bots n_rounds of
           Inl e \<Rightarrow> [Uncaught e]
         | Inr final_scores \<Rightarrow>
             let sorted_scores = sorted_reverse final_scores snd in
             [PrintFinalResults] @
             map (\<lambda>(i, player, score). PrintResult i (name player) score)
               (enumerate 1 sorted_scores) @
             [PrintRule]))"

text \<open>
  \<^verbatim>\<open>run_competition_headless\<close>. After the same guard, each of the \<open>num_games\<close> games
  constructs a game, plays all rounds (the argument \<open>play_rounds\<close>: the game number, the
  bots and the number of rounds give the final-scores dictionary, or the exception that
  left the loops), appends each bot's final score to \<open>all_scores\<close> and prints the final
  scores in the order of the bot list. Statistics follow when more than one game was
  played: per bot the sum and the number of its scores, whose quotient is printed.
\<close>

fun lookup_scores :: "Player list \<Rightarrow> (Player \<rightharpoonup> int) \<Rightarrow> exn + (string \<times> int) list" where
  "lookup_scores [] final_scores = Inr []"
| "lookup_scores (p # ps) final_scores =
     (case final_scores p of
        None \<Rightarrow> Inl KeyError
      | Some score \<Rightarrow>
          (case lookup_scores ps final_scores of
             Inl e \<Rightarrow> Inl e
           | Inr rest \<Rightarrow> Inr ((name p, score) # rest)))"

fun append_scores ::
  "Player list \<Rightarrow> (Player \<rightharpoonup> int) \<Rightarrow> (Player \<rightharpoonup> int list) \<Rightarrow> exn + (Player \<rightharpoonup> int list)" where
  "append_scores [] final_scores all_scores = Inr all_scores"
| "append_scores (p # rest) final_scores all_scores =
     (case (all_scores p, final_scores p) of
        (Some l, Some score) \<Rightarrow> append_scores rest final_scores (all_scores(p \<mapsto> l @ [score]))
      | _ \<Rightarrow> Inl KeyError)"

fun headless_games ::
  "(nat \<Rightarrow> Player list \<Rightarrow> int \<Rightarrow> exn + (Player \<times> int) list) \<Rightarrow> Player list \<Rightarrow> int \<Rightarrow> int \<Rightarrow>
   nat list \<Rightarrow> (Player \<rightharpoonup> int list) \<Rightarrow> event list \<times> (exn + (Player \<rightharpoonup> int list))" where
  "headless_games play_rounds bots n_rounds num_games [] all_scores = ([], Inr all_scores)"
| "headless_games play_rounds bots n_rounds num_games (game_num # later) all_scores =
     (let started = [PrintGame (game_num + 1) num_games, Construct bots n_rounds] in
      case play_rounds game_num bots n_rounds of
        Inl e \<Rightarrow> (started, Inl e)
      | Inr final_items \<Rightarrow>
          let final_scores = map_of final_items in
          (case append_scores bots final_scores all_scores of
             Inl e \<Rightarrow> (started, Inl e)
           | Inr all_scores' \<Rightarrow>
               (case lookup_scores bots final_scores of
                  Inl e \<Rightarrow> (started, Inl e)
                | Inr line \<Rightarrow>
                    let (evs, res) =
                          headless_games play_rounds bots n_rounds num_games later all_scores'
                    in (started @ [PrintFinalScores line] @ evs, res))))"

definition statistics :: "Player list \<Rightarrow> (Player \<rightharpoonup> int list) \<Rightarrow> (string \<times> int \<times> nat) list" where
  "statistics bots all_scores =
     map (\<lambda>p. (name p, sum_list (dict_get all_scores p []),
                length (dict_get all_scores p []))) bots"

definition run_competition_headless ::
  "Player list \<Rightarrow> int \<Rightarrow> int \<Rightarrow> (nat \<Rightarrow> Player list \<Rightarrow> int \<Rightarrow> exn + (Player \<times> int) list) \<Rightarrow>
   event list" where
  "run_competition_headless bots n_rounds num_games play_rounds =
     (if length bots < 2 then [PrintError]
      else
        let all_scores = (\<lambda>p. if p \<in> set bots then Some [] else None);
            (evs, res) =
              headless_games play_rounds bots n_rounds num_games [0..<nat num_games] all_scores
        in case res of
             Inl e \<Rightarrow> evs @ [Uncaught e]
           | Inr all_scores' \<Rightarrow>
               if 1 < num_games then evs @ [PrintStatistics (statistics bots all_scores')]
               else evs)"

text \<open>
  One pass of the body of the card-playing loop of \<^verbatim>\<open>run_competition_headless\<close>
  (lines 132 to 158). \<open>decide\<close> is the \<^verbatim>\<open>play_card\<close> method of the players: any function
  of the arguments the runner passes, returning a card or raising. The loop runs the body
  while a trick is in progress; without one, reading \<^verbatim>\<open>current_trick.cards_played\<close> is an
  AttributeError.
\<close>

type_synonym 's decision =
  "Player \<Rightarrow> 's Card list \<Rightarrow> 's trick_list \<Rightarrow> 's trick_list list \<Rightarrow> (Player \<rightharpoonup> int) \<Rightarrow>
   (Player \<rightharpoonup> int) \<Rightarrow> int \<Rightarrow> exn + 's Card"

text \<open>Lines 133 and 134: the first bot that has not played in the current trick.\<close>

definition find_next_player :: "Player list \<Rightarrow> 's trick_list \<Rightarrow> exn + Player" where
  "find_next_player bots cards_played =
     (let played_players = set (map fst cards_played)
      in py_next (\<lambda>p. p \<notin> played_players) bots)"

text \<open>Lines 152 and 153: a card that is not legal is replaced.\<close>

definition substitute_illegal :: "'s Card \<Rightarrow> 's Card list \<Rightarrow> 's Card list \<Rightarrow> exn + 's Card" where
  "substitute_illegal c legal_cards hand =
     (if c \<notin> set legal_cards
      then (if legal_cards \<noteq> [] then index0 legal_cards else index0 hand)
      else Inr c)"

text \<open>Lines 142 to 155, the body of the \<^verbatim>\<open>try\<close>: the card played and the game after it.\<close>

definition try_play ::
  "'s decision \<Rightarrow> 's SkullKingGame \<Rightarrow> Player \<Rightarrow> 's Card list \<Rightarrow> 's trick_list \<Rightarrow> int \<Rightarrow>
   exn + ('s Card \<times> 's SkullKingGame)" where
  "try_play decide game next_player hand current_trick_list round_num =
     (case decide next_player hand current_trick_list (tricks (state game))
             (bids (state game)) (tricks_won (state game)) round_num of
        Inl e \<Rightarrow> Inl e
      | Inr returned \<Rightarrow>
          (case get_legal_cards (state game) next_player of
             Inl e \<Rightarrow> Inl e
           | Inr legal_cards \<Rightarrow>
               (case substitute_illegal returned legal_cards hand of
                  Inl e \<Rightarrow> Inl e
                | Inr c \<Rightarrow>
                    (case game_play_card game next_player c of
                       Inl e \<Rightarrow> Inl e
                     | Inr game' \<Rightarrow> Inr (c, game')))))"

text \<open>
  The outcome of one pass: a card was played; or an exception was caught by
  \<^verbatim>\<open>except Exception\<close> (printed, then \<^verbatim>\<open>break\<close>); or an exception left the runner.
\<close>

datatype 's turn = Played Player "'s Card" | Caught exn | Propagated exn

definition play_turn ::
  "Player list \<Rightarrow> 's decision \<Rightarrow> 's SkullKingGame \<Rightarrow> int \<Rightarrow> 's turn \<times> 's SkullKingGame" where
  "play_turn bots decide game round_num =
     (case current_trick (state game) of
        None \<Rightarrow> (Propagated AttributeError, game)
      | Some cards_played \<Rightarrow>
          (case find_next_player bots cards_played of
             Inl e \<Rightarrow> (Propagated e, game)
           | Inr next_player \<Rightarrow>
               (case hands (state game) next_player of
                  None \<Rightarrow> (Propagated KeyError, game)
                | Some hand \<Rightarrow>
                    (case try_play decide game next_player hand cards_played round_num of
                       Inr (c, game') \<Rightarrow> (Played next_player c, game')
                     | Inl e \<Rightarrow>
                         if is_Exception e then (Caught e, game)
                         else (Propagated e, game)))))"

text \<open>The \<^verbatim>\<open>play_card\<close> methods of a list of example bots, as one decision function.\<close>

definition bots_decide :: "(Bot \<times> Player) list \<Rightarrow> nat \<Rightarrow> 's decision" where
  "bots_decide roster r self hand ct pt bs tw round_num =
     (case find (\<lambda>bp. snd bp = self) roster of
        None \<Rightarrow> Inl KeyError
      | Some bp \<Rightarrow> play_card (fst bp) self hand ct pt bs tw round_num r)"

text \<open>Reading a trace: the games constructed and the score lines printed.\<close>

fun constructed :: "event list \<Rightarrow> (Player list \<times> int) list" where
  "constructed [] = []"
| "constructed (Construct bots n_rounds # evs) = (bots, n_rounds) # constructed evs"
| "constructed (ev # evs) = constructed evs"

fun result_lines :: "event list \<Rightarrow> (string \<times> int) list" where
  "result_lines [] = []"
| "result_lines (PrintResult i player_name score # evs) = (player_name, score) # result_lines evs"
| "result_lines (ev # evs) = result_lines evs"

fun final_scores_lines :: "event list \<Rightarrow> (string \<times> int) list list" where
  "final_scores_lines [] = []"
| "final_scores_lines (PrintFinalScores line # evs) = line # final_scores_lines evs"
| "final_scores_lines (ev # evs) = final_scores_lines evs"

text \<open>
  Reading a headless run against its games: game \<open>g\<close> completes when playing its rounds
  returns final scores that hold a score for every bot; the line of a completed game
  lists each bot's name with its score of that game, in the order of the bot list.
\<close>

definition game_completes ::
  "(nat \<Rightarrow> Player list \<Rightarrow> int \<Rightarrow> exn + (Player \<times> int) list) \<Rightarrow> Player list \<Rightarrow> int \<Rightarrow>
   nat \<Rightarrow> bool" where
  "game_completes play_rounds bots n_rounds g =
     (case play_rounds g bots n_rounds of
        Inl e \<Rightarrow> False
      | Inr final_items \<Rightarrow> list_all (\<lambda>p. map_of final_items p \<noteq> None) bots)"

definition final_line ::
  "(nat \<Rightarrow> Player list \<Rightarrow> int \<Rightarrow> exn + (Player \<times> int) list) \<Rightarrow> Player list \<Rightarrow> int \<Rightarrow>
   nat \<Rightarrow> (string \<times> int) list" where
  "final_line play_rounds bots n_rounds g =
     (case play_rounds g bots n_rounds of
        Inl e \<Rightarrow> []
      | Inr final_items \<Rightarrow> map (\<lambda>p. (name p, dict_get (map_of final_items) p 0)) bots)"

subsection \<open>Sample values\<close>

text \<open>
  Players, cards and a game in progress, for evaluating the definitions on concrete
  inputs. Suits are numbered; suit 0 is trump in the sample game. In \<open>sample_game\<close>
  (round 2, two players) alice has led the 9 of suit 1 and bob, who holds the 3 of suit 2
  and the 5 of suit 1, is to play.
\<close>

definition alice :: Player where
  "alice = \<lparr>pid = 0, name = ''alice''\<rparr>"

definition bob :: Player where
  "bob = \<lparr>pid = 1, name = ''bob''\<rparr>"


definition number_card :: "'s \<Rightarrow> int \<Rightarrow> 's Card" where
  "number_card s v = \<lparr>card_type = NUMBER, suit = Some s, value' = v\<rparr>"


definition sample_roster :: "(Bot \<times> Player) list" where
  "sample_roster = [(RandomBot, alice), (ConservativeBot, bob)]"

definition sample_game :: "nat SkullKingGame" where
  "sample_game =
     \<lparr>players = [alice, bob], num_rounds = 10, current_round = 2, trump = 0,
      state =
        \<lparr>hands = [alice \<mapsto> [number_card 1 7], bob \<mapsto> [number_card 2 3, number_card 1 5]],
         bids = [alice \<mapsto> 1, bob \<mapsto> 0],
         tricks = [],
         current_trick = Some [(alice, number_card 1 9)],
         tricks_won = [alice \<mapsto> 0, bob \<mapsto> 0]\<rparr>\<rparr>"

definition raising :: "exn \<Rightarrow> 's decision" where
  "raising e self hand ct pt bs tw round_num = Inl e"

subsection \<open>Predicates on results\<close>

text \<open>The call returned a bid of \<open>[0, round_num]\<close> (and did not raise).\<close>

definition bid_in_range :: "int \<Rightarrow> exn + int \<Rightarrow> bool" where
  "bid_in_range round_num res =
     (case res of Inl e \<Rightarrow> False | Inr b \<Rightarrow> 0 \<le> b \<and> b \<le> round_num)"

text \<open>The call returned an element of the hand (and did not raise).\<close>

definition returns_card_of :: "'a list \<Rightarrow> exn + 'a \<Rightarrow> bool" where
  "returns_card_of hand res = (case res of Inl e \<Rightarrow> False | Inr c \<Rightarrow> c \<in> set hand)"

text \<open>
  ConservativeBot's bid as the specification words it: 0 when the number of ESCAPE cards
  in the hand is at least \<open>round_num\<close>, and \<open>min(1, round_num)\<close> otherwise.
\<close>

definition ConservativeBot_bid_spec :: "'s Card list \<Rightarrow> int \<Rightarrow> int" where
  "ConservativeBot_bid_spec hand round_num =
     (if round_num \<le> int (length (filter (\<lambda>c. card_type c = ESCAPE) hand)) then 0
      else min 1 round_num)"

section \<open>Properties of the bots\<close>

subsection \<open>The library model\<close>

lemma count_if_nonneg: "0 \<le> count_if p xs"
  by (induction xs) (simp_all add: count_if_def)

lemma count_if_length: "count_if p xs = int (length (filter p xs))"
  by (induction xs) (simp_all add: count_if_def)

text \<open>
  Every draw gives a value of the range, and every value of the range is given by some
  draw: the explicit draw restricts nothing.
\<close>

lemma randint_in_range: "a \<le> b \<Longrightarrow> \<exists>n. randint a b r = Inr n \<and> a \<le> n \<and> n \<le> b"
proof -
  assume ab: "a \<le> b"
  then have pos: "0 < b - a + 1" by simp
  have lo: "0 \<le> int r mod (b - a + 1)"
    using pos by (rule pos_mod_sign)
  have hi: "int r mod (b - a + 1) < b - a + 1"
    using pos by (rule pos_mod_bound)
  from ab lo hi show ?thesis
    unfolding randint_def by auto
qed

lemma randint_onto: "a \<le> n \<Longrightarrow> n \<le> b \<Longrightarrow> randint a b (nat (n - a)) = Inr n"
  unfolding randint_def by simp

lemma choice_mem: "seq \<noteq> [] \<Longrightarrow> returns_card_of seq (choice seq r)"
  by (simp add: choice_def returns_card_of_def)

lemma choice_onto: "i < length seq \<Longrightarrow> choice seq i = Inr (seq ! i)"
  by (auto simp: choice_def)

lemma min_from_mem: "min_from key best xs \<in> insert best (set xs)"
  by (induction xs arbitrary: best) auto

lemma max_from_mem: "max_from key best xs \<in> insert best (set xs)"
  by (induction xs arbitrary: best) auto

lemma py_min_mem: "xs \<noteq> [] \<Longrightarrow> returns_card_of xs (py_min xs key)"
  using min_from_mem [of key "hd xs" "tl xs"]
  by (cases xs) (auto simp: py_min_def returns_card_of_def)

lemma py_max_mem: "xs \<noteq> [] \<Longrightarrow> returns_card_of xs (py_max xs key)"
  using max_from_mem [of key "hd xs" "tl xs"]
  by (cases xs) (auto simp: py_max_def returns_card_of_def)

lemma index0_mem: "xs \<noteq> [] \<Longrightarrow> returns_card_of xs (index0 xs)"
  by (cases xs) (auto simp: index0_def returns_card_of_def)

lemma py_next_mem: "list_ex p xs \<Longrightarrow> returns_card_of xs (py_next p xs)"
  by (induction xs) (auto simp: py_next_def returns_card_of_def split: option.splits)

lemma returns_card_of_mono: "returns_card_of xs res \<Longrightarrow> set xs \<subseteq> set ys \<Longrightarrow> returns_card_of ys res"
  by (auto simp: returns_card_of_def split: sum.splits)

lemma returns_card_of_filter: "returns_card_of (filter p xs) res \<Longrightarrow> returns_card_of xs res"
  by (rule returns_card_of_mono) auto

lemma returns_card_of_if:
  "(c \<Longrightarrow> returns_card_of h x) \<Longrightarrow> (\<not> c \<Longrightarrow> returns_card_of h y) \<Longrightarrow>
   returns_card_of h (if c then x else y)"
  by simp

lemma ConservativeBot_play_card_mem:
  assumes ne: "hand \<noteq> []"
  shows "returns_card_of hand (ConservativeBot_play_card hand ct pt bs tw rn r)"
  unfolding ConservativeBot_play_card_def Let_def
  by (intro returns_card_of_if;
      ((rule choice_mem, rule ne) |
       (rule returns_card_of_filter, rule index0_mem py_min_mem, assumption)))

lemma AggressiveBot_play_card_mem:
  assumes ne: "hand \<noteq> []"
  shows "returns_card_of hand (AggressiveBot_play_card self hand ct pt bs tw rn r)"
  unfolding AggressiveBot_play_card_def Let_def
  by (intro returns_card_of_if;
      ((rule choice_mem, rule ne) |
       (rule returns_card_of_filter,
        rule index0_mem py_min_mem py_max_mem py_next_mem, assumption)))

lemma ConservativeBot_play_card_empty:
  "ConservativeBot_play_card [] ct pt bs tw rn r = Inl IndexError"
  by (simp add: ConservativeBot_play_card_def choice_def)

lemma AggressiveBot_play_card_empty:
  "AggressiveBot_play_card self [] ct pt bs tw rn r = Inl IndexError"
  by (simp add: AggressiveBot_play_card_def choice_def)

subsection \<open>Bids\<close>

text \<open>
  C3, as amended. For every bot class, every hand, every \<open>round_num \<ge> 1\<close>, every mapping
  of previous bids and every draw of the generator, \<open>make_bid\<close> returns an integer bid of
  the closed interval \<open>[0, round_num]\<close>; DummyPlayer, RandomBot and ConservativeBot do so
  for \<open>round_num = 0\<close> as well. (AggressiveBot bids at least 1, so at \<open>round_num = 0\<close> its
  bid is outside the interval: see the counterexample.)
\<close>

theorem make_bid_in_range:
  assumes "0 \<le> round_num" and "b \<noteq> AggressiveBot \<or> 1 \<le> round_num"
  shows "bid_in_range round_num (make_bid b hand round_num previous_bids r)"
proof (cases b)
  case DummyPlayer
  with assms randint_in_range [of 0 round_num r] show ?thesis
    by (auto simp: bid_in_range_def DummyPlayer_make_bid_def)
next
  case RandomBot
  with assms randint_in_range [of 0 round_num r] show ?thesis
    by (auto simp: bid_in_range_def RandomBot_make_bid_def)
next
  case ConservativeBot
  with assms show ?thesis
    by (simp add: bid_in_range_def ConservativeBot_make_bid_def Let_def)
next
  case AggressiveBot
  with assms count_if_nonneg show ?thesis
    by (simp add: bid_in_range_def AggressiveBot_make_bid_def Let_def)
qed

theorem make_bid_in_range_witness:
  "bid_in_range 3
     (make_bid AggressiveBot
        [\<lparr>card_type = PIRATE, suit = None :: nat option, value' = 0\<rparr>,
         \<lparr>card_type = NUMBER, suit = Some 1, value' = 12\<rparr>,
         \<lparr>card_type = ESCAPE, suit = None, value' = 0\<rparr>] 3 Map.empty 0) \<and>
   bid_in_range 0 (make_bid RandomBot ([] :: nat Card list) 0 Map.empty 7)"
proof
  show "bid_in_range 3
     (make_bid AggressiveBot
        [\<lparr>card_type = PIRATE, suit = None :: nat option, value' = 0\<rparr>,
         \<lparr>card_type = NUMBER, suit = Some 1, value' = 12\<rparr>,
         \<lparr>card_type = ESCAPE, suit = None, value' = 0\<rparr>] 3 Map.empty 0)"
    by (rule make_bid_in_range) simp_all
  show "bid_in_range 0 (make_bid RandomBot ([] :: nat Card list) 0 Map.empty 7)"
    by (rule make_bid_in_range) simp_all
qed

text \<open>
  C3 as stated fails: with \<open>round_num = 0\<close> (which the claim admits) AggressiveBot bids 1,
  which is not in \<open>[0, 0]\<close>.
\<close>

theorem make_bid_in_range_counterexample:
  "\<not> bid_in_range 0 (make_bid AggressiveBot ([] :: nat Card list) 0 Map.empty 0)"
  by (simp add: bid_in_range_def AggressiveBot_make_bid_def count_if_def)

text \<open>
  C9. For every hand, every \<open>round_num\<close> and every mapping of previous bids,
  AggressiveBot's bid is at least 1; at \<open>round_num = 0\<close> the bid is strictly greater than
  \<open>round_num\<close>.
\<close>

theorem AggressiveBot_bid_at_least_one:
  "1 \<le> AggressiveBot_make_bid hand round_num previous_bids \<and>
   0 < AggressiveBot_make_bid hand 0 previous_bids"
  by (simp add: AggressiveBot_make_bid_def Let_def)

theorem AggressiveBot_bid_at_least_one_witness:
  "1 \<le> AggressiveBot_make_bid
          [\<lparr>card_type = ESCAPE, suit = None :: nat option, value' = 0\<rparr>] 0 Map.empty \<and>
   0 < AggressiveBot_make_bid
          [\<lparr>card_type = ESCAPE, suit = None :: nat option, value' = 0\<rparr>] 0 Map.empty"
  by (rule AggressiveBot_bid_at_least_one)

text \<open>
  C10. ConservativeBot's bid is the function of \<open>(hand, round_num)\<close> the specification
  words: 0 when the hand holds at least \<open>round_num\<close> ESCAPE cards, \<open>min(1, round_num)\<close>
  otherwise. It never exceeds 1, and it does not depend on the previous bids (there is no
  draw of the generator among its arguments), so two calls with the same hand and
  \<open>round_num\<close> return the same bid.
\<close>

theorem ConservativeBot_make_bid_refines_spec:
  "ConservativeBot_make_bid hand round_num previous_bids =
     ConservativeBot_bid_spec hand round_num \<and>
   ConservativeBot_make_bid hand round_num previous_bids \<le> 1 \<and>
   ConservativeBot_make_bid hand round_num previous_bids =
     ConservativeBot_make_bid hand round_num previous_bids'"
  by (simp add: ConservativeBot_make_bid_def ConservativeBot_bid_spec_def
        count_if_length Let_def)

theorem ConservativeBot_make_bid_refines_spec_witness:
  "ConservativeBot_make_bid
     [\<lparr>card_type = ESCAPE, suit = None :: nat option, value' = 0\<rparr>,
      \<lparr>card_type = NUMBER, suit = Some 2, value' = 5\<rparr>] 2 Map.empty = 1 \<and>
   ConservativeBot_bid_spec
     [\<lparr>card_type = ESCAPE, suit = None :: nat option, value' = 0\<rparr>,
      \<lparr>card_type = NUMBER, suit = Some 2, value' = 5\<rparr>] 2 = 1"
  using ConservativeBot_make_bid_refines_spec
    [of "[\<lparr>card_type = ESCAPE, suit = None :: nat option, value' = 0\<rparr>,
          \<lparr>card_type = NUMBER, suit = Some 2, value' = 5\<rparr>]" 2 Map.empty Map.empty]
  by (simp add: ConservativeBot_bid_spec_def)

subsection \<open>Cards played\<close>

text \<open>
  C8. For every bot class and every non-empty hand, \<open>play_card\<close> returns a card that is
  an element of the hand, whatever the other arguments and the draw of the generator;
  on the empty hand the call returns no card: every path ends in
  \<^verbatim>\<open>random.choice(hand)\<close>, which raises IndexError.
\<close>

theorem play_card_returns_card_of_hand:
  "(hand \<noteq> [] \<longrightarrow> returns_card_of hand (play_card b self hand ct pt bs tw rn r)) \<and>
   play_card b self [] ct pt bs tw rn r = Inl IndexError"
  by (cases b)
     (simp_all add: ConservativeBot_play_card_mem AggressiveBot_play_card_mem
        ConservativeBot_play_card_empty AggressiveBot_play_card_empty
        DummyPlayer_play_card_def RandomBot_play_card_def choice_mem, simp_all add: choice_def)

theorem play_card_returns_card_of_hand_witness:
  "returns_card_of
     [\<lparr>card_type = NUMBER, suit = Some (1 :: nat), value' = 9\<rparr>,
      \<lparr>card_type = NUMBER, suit = Some 1, value' = 4\<rparr>]
     (play_card ConservativeBot \<lparr>pid = 0, name = ''ConservativeBot''\<rparr>
        [\<lparr>card_type = NUMBER, suit = Some (1 :: nat), value' = 9\<rparr>,
         \<lparr>card_type = NUMBER, suit = Some 1, value' = 4\<rparr>]
        [] [] Map.empty Map.empty 2 0) \<and>
   play_card ConservativeBot \<lparr>pid = 0, name = ''ConservativeBot''\<rparr>
     ([] :: nat Card list) [] [] Map.empty Map.empty 2 0 = Inl IndexError"
  using play_card_returns_card_of_hand
    [of "[\<lparr>card_type = NUMBER, suit = Some (1 :: nat), value' = 9\<rparr>,
          \<lparr>card_type = NUMBER, suit = Some 1, value' = 4\<rparr>]"
        ConservativeBot "\<lparr>pid = 0, name = ''ConservativeBot''\<rparr>" "[]" "[]"
        Map.empty Map.empty 2 0]
  by simp

section \<open>Properties of the competition runner\<close>

subsection \<open>One pass of the card-playing loop\<close>

text \<open>
  Facts about the engine as modelled: the legal cards are cards of the hand, and there is
  one whenever the hand is not empty; a legal card is accepted while a trick is in
  progress, and only a legal card is; the accepted card ends the current trick or, when
  the trick is full, the last completed trick.
\<close>

lemmas sample_defs = sample_game_def sample_roster_def alice_def bob_def number_card_def
  find_next_player_def py_next_def get_legal_cards_def led_suit_def follows_suit_def
  is_special_def

lemma get_legal_cards_hand:
  assumes "hands st p = Some hand"
  shows "\<exists>legal. get_legal_cards st p = Inr legal \<and> set legal \<subseteq> set hand \<and>
           (legal = [] \<longleftrightarrow> hand = [])"
  using assms
  by (auto simp: get_legal_cards_def Let_def split: option.splits list.splits)

lemma get_legal_cards_nonempty:
  "hands st p = Some hand \<Longrightarrow> hand \<noteq> [] \<Longrightarrow> get_legal_cards st p = Inr legal \<Longrightarrow> legal \<noteq> []"
  using get_legal_cards_hand [of st p hand] by auto

lemma get_legal_cards_subset:
  "hands st p = Some hand \<Longrightarrow> get_legal_cards st p = Inr legal \<Longrightarrow> set legal \<subseteq> set hand"
  using get_legal_cards_hand [of st p hand] by auto

lemma trick_winner_snoc: "\<exists>w. trick_winner trmp (ct @ [pc]) = Inr w"
  by (cases ct) (simp_all add: trick_winner_def)

lemma game_play_card_legal:
  assumes "get_legal_cards (state game) p = Inr legal" and "c \<in> set legal"
    and "current_trick (state game) = Some ct"
  shows "\<exists>game'. game_play_card game p c = Inr game'"
proof -
  from assms(1) obtain hand where h: "hands (state game) p = Some hand"
    by (auto simp: get_legal_cards_def split: option.splits)
  obtain w where w: "trick_winner (trump game) (ct @ [(p, c)]) = Inr w"
    using trick_winner_snoc [of "trump game" ct "(p, c)"] by auto
  show ?thesis
    using assms h w by (simp add: game_play_card_def Let_def)
qed

lemma game_play_card_only_legal:
  "game_play_card game p c = Inr game' \<Longrightarrow>
   \<exists>legal. get_legal_cards (state game) p = Inr legal \<and> c \<in> set legal"
  by (auto simp: game_play_card_def split: sum.splits if_splits)

lemma game_play_card_appends:
  assumes "game_play_card game p c = Inr game'" and "current_trick (state game) = Some ct"
  shows "current_trick (state game') = Some (ct @ [(p, c)]) \<or>
         (current_trick (state game') = None \<and>
          tricks (state game') = tricks (state game) @ [ct @ [(p, c)]])"
  using assms
  by (auto simp: game_play_card_def Let_def split: sum.splits if_splits option.splits)

lemma substitute_illegal_legal:
  "legal \<noteq> [] \<Longrightarrow>
   substitute_illegal c legal hand = Inr (if c \<in> set legal then c else legal ! 0)"
  by (cases legal) (simp_all add: substitute_illegal_def index0_def)

text \<open>
  C1. During trick play (a trick is in progress, the next player \<open>p\<close> is found and holds a
  non-empty hand), for every card \<open>returned\<close> by the player's \<open>play_card\<close>: the runner
  plays that card unchanged when it is in \<open>get_legal_cards(p)\<close> and plays element 0 of the
  legal-card list otherwise. The card played is legal in both cases, the engine accepts
  it, and the game after the pass is the engine's result for that card.
\<close>

theorem illegal_card_substituted:
  assumes trick: "current_trick (state game) = Some ct"
    and nxt: "find_next_player bots ct = Inr p"
    and hnd: "hands (state game) p = Some hand" and ne: "hand \<noteq> []"
    and dec: "decide p hand ct (tricks (state game)) (bids (state game))
                (tricks_won (state game)) round_num = Inr returned"
    and leg: "get_legal_cards (state game) p = Inr legal"
  shows "legal \<noteq> [] \<and>
         (if returned \<in> set legal then returned else legal ! 0) \<in> set legal \<and>
         fst (play_turn bots decide game round_num) =
           Played p (if returned \<in> set legal then returned else legal ! 0) \<and>
         game_play_card game p (if returned \<in> set legal then returned else legal ! 0) =
           Inr (snd (play_turn bots decide game round_num))"
proof -
  let ?c = "if returned \<in> set legal then returned else legal ! 0"
  have l: "legal \<noteq> []"
    using hnd ne leg by (rule get_legal_cards_nonempty)
  then have mem: "?c \<in> set legal"
    by (cases legal) auto
  have sub: "substitute_illegal returned legal hand = Inr ?c"
    using l by (rule substitute_illegal_legal)
  obtain game' where g: "game_play_card game p ?c = Inr game'"
    using game_play_card_legal [OF leg mem trick] by blast
  have "try_play decide game p hand ct round_num = Inr (?c, game')"
    unfolding try_play_def using dec leg sub g by simp
  then have "play_turn bots decide game round_num = (Played p ?c, game')"
    unfolding play_turn_def using trick nxt hnd by simp
  with l mem g show ?thesis by simp
qed

theorem illegal_card_substituted_witness:
  "fst (play_turn [alice, bob] (bots_decide sample_roster 0) sample_game 2) =
     Played bob (number_card 1 5) \<and>
   bots_decide sample_roster 0 bob [number_card 2 3, number_card 1 5] [(alice, number_card 1 9)]
     [] [alice \<mapsto> 1, bob \<mapsto> 0] [alice \<mapsto> 0, bob \<mapsto> 0] 2 = Inr (number_card 2 3 :: nat Card)"
proof -
  have dec: "bots_decide sample_roster 0 bob [number_card 2 3, number_card 1 5]
      [(alice, number_card 1 9)] (tricks (state sample_game)) (bids (state sample_game))
      (tricks_won (state sample_game)) 2 = Inr (number_card 2 3 :: nat Card)"
    by (simp add: sample_defs bots_decide_def ConservativeBot_play_card_def py_min_def)
  have "fst (play_turn [alice, bob] (bots_decide sample_roster 0) sample_game 2) =
          Played bob (if number_card 2 3 \<in> set [number_card 1 5 :: nat Card]
                      then number_card 2 3 else [number_card 1 5] ! 0)"
    using illegal_card_substituted [where game = sample_game and bots = "[alice, bob]"
        and ct = "[(alice, number_card 1 9)]" and p = bob
        and hand = "[number_card 2 3, number_card 1 5]"
        and decide = "bots_decide sample_roster 0" and round_num = 2
        and returned = "number_card 2 3" and legal = "[number_card 1 5]", OF _ _ _ _ dec]
    by (simp add: sample_defs)
  with dec show ?thesis
    by (simp add: sample_defs)
qed

text \<open>
  Whatever the state and the decision, a pass that plays a card plays a legal one: an
  illegal returned card never reaches the trick.
\<close>

lemma play_turn_only_legal:
  assumes "play_turn bots decide game round_num = (Played p c, game')"
  shows "\<exists>legal. get_legal_cards (state game) p = Inr legal \<and> c \<in> set legal \<and>
           game_play_card game p c = Inr game'"
  using assms game_play_card_only_legal [of game p c game']
  by (auto simp: play_turn_def try_play_def split: option.splits sum.splits if_splits prod.splits)

text \<open>
  C2, as amended. During trick play, an exception \<open>e\<close> raised by the player's \<open>play_card\<close>
  that derives from \<^verbatim>\<open>Exception\<close> is caught by the runner and is not propagated; the
  pass then ends (\<^verbatim>\<open>break\<close>) with the game unchanged: no card is played and no default
  action is substituted. An exception that does not derive from \<^verbatim>\<open>Exception\<close> leaves
  the runner.
\<close>

theorem decision_exception_caught:
  assumes trick: "current_trick (state game) = Some ct"
    and nxt: "find_next_player bots ct = Inr p"
    and hnd: "hands (state game) p = Some hand"
    and dec: "decide p hand ct (tricks (state game)) (bids (state game))
                (tricks_won (state game)) round_num = Inl e"
  shows "play_turn bots decide game round_num =
           (if is_Exception e then Caught e else Propagated e, game)"
proof -
  have "try_play decide game p hand ct round_num = Inl e"
    unfolding try_play_def using dec by simp
  then show ?thesis
    unfolding play_turn_def using trick nxt hnd by simp
qed

theorem decision_exception_caught_witness:
  "play_turn [alice, bob] (raising (OtherException ''boom'')) sample_game 2 =
     (Caught (OtherException ''boom''), sample_game) \<and>
   play_turn [alice, bob] (raising SystemExit) sample_game 2 =
     (Propagated SystemExit, sample_game)"
  using decision_exception_caught [where game = sample_game and bots = "[alice, bob]"
        and ct = "[(alice, number_card 1 9)]" and p = bob
        and hand = "[number_card 2 3, number_card 1 5]"
        and decide = "raising (OtherException ''boom'')" and round_num = 2
        and e = "OtherException ''boom''"]
    decision_exception_caught [where game = sample_game and bots = "[alice, bob]"
        and ct = "[(alice, number_card 1 9)]" and p = bob
        and hand = "[number_card 2 3, number_card 1 5]"
        and decide = "raising SystemExit" and round_num = 2 and e = SystemExit]
  by (simp add: sample_defs raising_def)

text \<open>
  C2 as stated fails: in \<open>sample_game\<close> bob has a legal card (the 5 of suit 1); when his
  decision raises, the pass does not play that card in his place, and the game is left as
  it was.
\<close>

theorem decision_exception_caught_counterexample:
  "get_legal_cards (state sample_game) bob = Inr [number_card 1 5] \<and>
   fst (play_turn [alice, bob] (raising (OtherException ''boom'')) sample_game 2) \<noteq>
     Played bob (number_card 1 5) \<and>
   snd (play_turn [alice, bob] (raising (OtherException ''boom'')) sample_game 2) = sample_game"
  by (simp add: sample_defs raising_def play_turn_def try_play_def)

subsection \<open>Entry points: the guard and the final report\<close>

lemma set_insert_desc: "set (insert_desc key x xs) = insert x (set xs)"
  by (induction xs) auto

lemma mset_insert_desc: "mset (insert_desc key x xs) = add_mset x (mset xs)"
  by (induction xs) auto

lemma sorted_insert_desc:
  "sorted_wrt (\<lambda>a b. key b \<le> key a) xs \<Longrightarrow>
   sorted_wrt (\<lambda>a b. key b \<le> key a) (insert_desc key x xs)"
  by (induction xs) (auto simp: set_insert_desc)

lemma sorted_sorted_reverse: "sorted_wrt (\<lambda>a b. key b \<le> key a) (sorted_reverse xs key)"
  unfolding sorted_reverse_def by (induction xs) (simp_all add: sorted_insert_desc)

lemma mset_sorted_reverse: "mset (sorted_reverse xs key) = mset xs"
  unfolding sorted_reverse_def by (induction xs) (simp_all add: mset_insert_desc)

lemma result_lines_append: "result_lines (xs @ ys) = result_lines xs @ result_lines ys"
  by (induction xs rule: result_lines.induct) simp_all

lemma constructed_append: "constructed (xs @ ys) = constructed xs @ constructed ys"
  by (induction xs rule: constructed.induct) simp_all

lemma final_scores_lines_append:
  "final_scores_lines (xs @ ys) = final_scores_lines xs @ final_scores_lines ys"
  by (induction xs rule: final_scores_lines.induct) simp_all

lemma result_lines_enumerate:
  "result_lines (map (\<lambda>(i, player, score). PrintResult i (name player) score) (enumerate k xs)) =
   map (\<lambda>(player, score). (name player, score)) xs"
  by (induction xs arbitrary: k) (auto simp: enumerate_simps)

lemma constructed_results:
  "constructed (map (\<lambda>(i, player, score). PrintResult i (name player) score) ys) = []"
  by (induction ys) auto

lemma result_lines_gui:
  "result_lines (run_competition_with_gui bots n gui_session) =
     (if length bots < 2 then []
      else case gui_session bots n of
             Inl e \<Rightarrow> []
           | Inr final_scores \<Rightarrow>
               map (\<lambda>(player, score). (name player, score)) (sorted_reverse final_scores snd))"
  by (simp add: run_competition_with_gui_def Let_def result_lines_append result_lines_enumerate
        split: sum.splits)

lemma sorted_names:
  "sorted_wrt (\<lambda>a b. snd b \<le> snd a) xs \<Longrightarrow>
   sorted_wrt (\<lambda>a b. snd b \<le> snd a) (map (\<lambda>(player, score). (name player, score)) xs)"
  by (induction xs) auto

lemma headless_trace:
  "2 \<le> length bots \<Longrightarrow>
   \<exists>tail. run_competition_headless bots n m pr =
     fst (headless_games pr bots n m [0..<nat m]
            (\<lambda>p. if p \<in> set bots then Some [] else None)) @ tail \<and>
     constructed tail = [] \<and> final_scores_lines tail = []"
  by (simp add: run_competition_headless_def Let_def case_prod_beta split: sum.splits)

lemma headless_refused:
  "length bots < 2 \<Longrightarrow> run_competition_headless bots n m pr = [PrintError]"
  by (simp add: run_competition_headless_def)

lemma lookup_scores_complete:
  "list_all (\<lambda>p. fs p \<noteq> None) ps \<Longrightarrow>
   lookup_scores ps fs = Inr (map (\<lambda>p. (name p, dict_get fs p 0)) ps)"
  by (induction ps) (auto simp: dict_get_def)

lemma lookup_scores_incomplete:
  "\<not> list_all (\<lambda>p. fs p \<noteq> None) ps \<Longrightarrow> \<exists>e. lookup_scores ps fs = Inl e"
  by (induction ps) (auto split: option.splits sum.splits)

lemma append_scores_complete:
  "list_all (\<lambda>p. fs p \<noteq> None) ps \<Longrightarrow> set ps \<subseteq> dom all \<Longrightarrow>
   \<exists>all'. append_scores ps fs all = Inr all' \<and> dom all' = dom all"
proof (induction ps arbitrary: all)
  case Nil
  then show ?case by simp
next
  case (Cons p ps)
  from Cons.prems obtain l score where l: "all p = Some l" and sc: "fs p = Some score"
    by auto
  have d: "dom (all(p \<mapsto> l @ [score])) = dom all"
    using l by auto
  from Cons.prems have "list_all (\<lambda>p. fs p \<noteq> None) ps" and "set ps \<subseteq> dom (all(p \<mapsto> l @ [score]))"
    by auto
  from Cons.IH [OF this] obtain all' where
      a: "append_scores ps fs (all(p \<mapsto> l @ [score])) = Inr all'"
      and da: "dom all' = dom (all(p \<mapsto> l @ [score]))"
    by blast
  have "append_scores (p # ps) fs all = Inr all'"
    using l sc a by simp
  moreover have "dom all' = dom all"
    by (simp only: da d)
  ultimately show ?case by blast
qed

lemma headless_games_exact:
  assumes "set bots \<subseteq> dom all"
  shows "final_scores_lines (fst (headless_games pr bots n m gs all)) =
           map (final_line pr bots n) (takeWhile (game_completes pr bots n) gs) \<and>
         constructed (fst (headless_games pr bots n m gs all)) =
           replicate (min (length gs) (Suc (length (takeWhile (game_completes pr bots n) gs))))
             (bots, n)"
  using assms
proof (induction gs arbitrary: all)
  case Nil
  then show ?case by simp
next
  case (Cons g gs)
  show ?case
  proof (cases "game_completes pr bots n g")
    case False
    have "fst (headless_games pr bots n m (g # gs) all) =
            [PrintGame (g + 1) m, Construct bots n]"
    proof (cases "pr g bots n")
      case (Inl e)
      then show ?thesis by simp
    next
      case (Inr items)
      with False have "\<not> list_all (\<lambda>p. map_of items p \<noteq> None) bots"
        by (simp add: game_completes_def)
      then obtain e where "lookup_scores bots (map_of items) = Inl e"
        using lookup_scores_incomplete by blast
      with Inr show ?thesis
        by (simp add: Let_def split: sum.splits)
    qed
    with False show ?thesis by simp
  next
    case True
    then obtain items where items: "pr g bots n = Inr items"
      and all_scored: "list_all (\<lambda>p. map_of items p \<noteq> None) bots"
      by (auto simp: game_completes_def split: sum.splits)
    from append_scores_complete [OF all_scored Cons.prems]
    obtain all' where all': "append_scores bots (map_of items) all = Inr all'"
      and d: "dom all' = dom all"
      by blast
    have line: "lookup_scores bots (map_of items) = Inr (final_line pr bots n g)"
      using lookup_scores_complete [OF all_scored] items by (simp add: final_line_def)
    have step: "fst (headless_games pr bots n m (g # gs) all) =
            [PrintGame (g + 1) m, Construct bots n] @ [PrintFinalScores (final_line pr bots n g)] @
            fst (headless_games pr bots n m gs all')"
      using items all' line by (simp add: Let_def case_prod_beta)
    from Cons.prems d have "set bots \<subseteq> dom all'" by simp
    from Cons.IH [OF this] step True show ?thesis
      by (simp add: final_scores_lines_append constructed_append)
  qed
qed

lemma headless_exact:
  assumes "2 \<le> length bots"
  shows "final_scores_lines (run_competition_headless bots n m pr) =
           map (final_line pr bots n) (takeWhile (game_completes pr bots n) [0..<nat m]) \<and>
         constructed (run_competition_headless bots n m pr) =
           replicate (min (nat m) (Suc (length (takeWhile (game_completes pr bots n) [0..<nat m]))))
             (bots, n)"
proof -
  let ?all = "\<lambda>p. if p \<in> set bots then Some [] else None"
  have "set bots \<subseteq> dom ?all" by (auto simp: dom_def)
  from headless_games_exact [OF this, of pr n m "[0..<nat m]"]
    headless_trace [OF assms, of n m pr]
  show ?thesis
    by (auto simp: final_scores_lines_append constructed_append)
qed

lemma takeWhile_all: "\<forall>x \<in> set xs. P x \<Longrightarrow> takeWhile P xs = xs"
  by (induction xs) simp_all

text \<open>
  C4, as amended. \<^verbatim>\<open>run_competition_with_gui\<close> prints the final cumulative scores
  sorted in descending score order: for every final-scores mapping the printed sequence
  of (player, score) pairs has non-increasing scores, and it is a rearrangement of the
  mapping's items. \<^verbatim>\<open>run_competition_headless\<close> prints exactly one line of final scores
  for each game played to completion, in the order of the games (the games before the
  first one that does not complete, all \<open>num_games\<close> of them when every game completes),
  and each line lists the bots with their scores of that game in the order of the bot
  list, not sorted by score.
\<close>

theorem final_scores_report:
  "sorted_wrt (\<lambda>a b. snd b \<le> snd a)
     (result_lines (run_competition_with_gui bots n gui_session)) \<and>
   (2 \<le> length bots \<and> gui_session bots n = Inr final_scores \<longrightarrow>
      mset (result_lines (run_competition_with_gui bots n gui_session)) =
      mset (map (\<lambda>(player, score). (name player, score)) final_scores)) \<and>
   final_scores_lines (run_competition_headless bots n m play_rounds) =
     (if length bots < 2 then []
      else map (final_line play_rounds bots n)
             (takeWhile (game_completes play_rounds bots n) [0..<nat m]))"
proof -
  have gui_sorted: "sorted_wrt (\<lambda>a b. snd b \<le> snd a)
          (result_lines (run_competition_with_gui bots n gui_session))"
    unfolding result_lines_gui
    by (simp add: sorted_names sorted_sorted_reverse split: sum.splits)
  have gui_perm: "mset (result_lines (run_competition_with_gui bots n gui_session)) =
               mset (map (\<lambda>(player, score). (name player, score)) final_scores)"
    if "2 \<le> length bots \<and> gui_session bots n = Inr final_scores"
  proof -
    from that have "result_lines (run_competition_with_gui bots n gui_session) =
               map (\<lambda>(player, score). (name player, score)) (sorted_reverse final_scores snd)"
      unfolding result_lines_gui by simp
    then show ?thesis
      by (simp add: mset_sorted_reverse)
  qed
  have headless: "final_scores_lines (run_competition_headless bots n m play_rounds) =
     (if length bots < 2 then []
      else map (final_line play_rounds bots n)
             (takeWhile (game_completes play_rounds bots n) [0..<nat m]))"
  proof (cases "length bots < 2")
    case True
    then show ?thesis by (simp add: headless_refused)
  next
    case False
    then have "2 \<le> length bots" by simp
    from headless_exact [OF this, of n m play_rounds] False show ?thesis
      by simp
  qed
  from gui_sorted gui_perm headless show ?thesis
    by blast
qed

theorem final_scores_report_witness:
  "result_lines (run_competition_with_gui [alice, bob] 10
     (\<lambda>bots n. Inr [(alice, 30), (bob, 50)])) = [(''bob'', 50), (''alice'', 30)] \<and>
   final_scores_lines (run_competition_headless [alice, bob] 10 2
     (\<lambda>g bots n. Inr [(alice, 30 + int g), (bob, 50)])) =
     [[(''alice'', 30), (''bob'', 50)], [(''alice'', 31), (''bob'', 50)]]"
  using final_scores_report [of "[alice, bob]" 10 "\<lambda>bots n. Inr [(alice, 30), (bob, 50)]"
      "[(alice, 30), (bob, 50)]" 2 "\<lambda>g bots n. Inr [(alice, 30 + int g), (bob, 50)]"]
  by (simp add: run_competition_with_gui_def sorted_reverse_def enumerate_simps
        alice_def bob_def Let_def game_completes_def final_line_def dict_get_def upt_rec)

text \<open>
  C4 as stated fails for \<^verbatim>\<open>run_competition_headless\<close>: with the three competition
  bots and final scores 30 for RandomBot, 50 for ConservativeBot and \<open>- 20\<close> for
  AggressiveBot, the line printed lists them in this order, so the scores are not
  non-increasing.
\<close>

theorem final_scores_report_counterexample:
  "\<not> sorted_wrt (\<lambda>a b. snd b \<le> snd a)
       (hd (final_scores_lines
          (run_competition_headless (map snd create_competition_bots) 10 1
             (\<lambda>g bots n. Inr (zip bots [30, 50, - 20])))))"
  by (simp add: run_competition_headless_def create_competition_bots_def Let_def)

text \<open>
  C5, as amended. With fewer than 2 bots both entry points print the error and return:
  the trace is that one line, so no game is constructed and nothing of a game runs. With
  2 bots or more \<^verbatim>\<open>run_competition_with_gui\<close> constructs one game, over exactly that list;
  \<^verbatim>\<open>run_competition_headless\<close> constructs one game over exactly that list for each game
  it starts: the games played to completion and, when one does not complete, that one
  too. These are \<open>num_games\<close> games when every game completes, and none when
  \<open>num_games \<le> 0\<close>.
\<close>

theorem entry_guard:
  "(length bots < 2 \<longrightarrow>
      run_competition_with_gui bots n gui_session = [PrintError] \<and>
      run_competition_headless bots n m play_rounds = [PrintError]) \<and>
   (2 \<le> length bots \<longrightarrow>
      constructed (run_competition_with_gui bots n gui_session) = [(bots, n)] \<and>
      constructed (run_competition_headless bots n m play_rounds) =
        replicate
          (min (nat m)
             (Suc (length (takeWhile (game_completes play_rounds bots n) [0..<nat m]))))
          (bots, n) \<and>
      ((\<forall>g < nat m. game_completes play_rounds bots n g) \<longrightarrow>
         constructed (run_competition_headless bots n m play_rounds) =
           replicate (nat m) (bots, n)))"
proof -
  have refused: "run_competition_with_gui bots n gui_session = [PrintError] \<and>
      run_competition_headless bots n m play_rounds = [PrintError]"
    if "length bots < 2"
    using that by (simp add: run_competition_with_gui_def headless_refused)
  have gui: "constructed (run_competition_with_gui bots n gui_session) = [(bots, n)]"
    if "2 \<le> length bots"
    using that
    by (simp add: run_competition_with_gui_def Let_def constructed_append constructed_results
          split: sum.splits)
  have headless: "constructed (run_competition_headless bots n m play_rounds) =
        replicate
          (min (nat m)
             (Suc (length (takeWhile (game_completes play_rounds bots n) [0..<nat m]))))
          (bots, n)"
    if "2 \<le> length bots"
    using headless_exact [OF that, of n m play_rounds] by simp
  have all_complete: "constructed (run_competition_headless bots n m play_rounds) =
           replicate (nat m) (bots, n)"
    if "2 \<le> length bots" and "\<forall>g < nat m. game_completes play_rounds bots n g"
  proof -
    from that(2) have "takeWhile (game_completes play_rounds bots n) [0..<nat m] = [0..<nat m]"
      by (intro takeWhile_all) simp
    with headless [OF that(1)] show ?thesis by simp
  qed
  from refused gui headless all_complete show ?thesis
    by blast
qed

theorem entry_guard_witness:
  "run_competition_with_gui [alice] 10 (\<lambda>bots n. Inr []) = [PrintError] \<and>
   run_competition_headless [alice] 10 1 (\<lambda>g bots n. Inr []) = [PrintError] \<and>
   constructed (run_competition_with_gui (map snd create_competition_bots) 10
                  (\<lambda>bots n. Inr [])) =
     [(map snd create_competition_bots, 10)] \<and>
   constructed (run_competition_headless (map snd create_competition_bots) 10 3
                  (\<lambda>g bots n. Inr (zip bots [30, 50, - 20]))) =
     [(map snd create_competition_bots, 10), (map snd create_competition_bots, 10),
      (map snd create_competition_bots, 10)]"
proof -
  let ?roster = "map snd create_competition_bots"
  let ?play = "\<lambda>(g :: nat) (bots :: Player list) (n :: int). Inr (zip bots [30, 50, - 20 :: int])
                 :: exn + (Player \<times> int) list"
  have small: "run_competition_with_gui [alice] 10 (\<lambda>bots n. Inr []) = [PrintError] \<and>
      run_competition_headless [alice] 10 1 (\<lambda>g bots n. Inr []) = [PrintError]"
    using entry_guard [of "[alice]" 10 "\<lambda>bots n. Inr []" 1 "\<lambda>g bots n. Inr []"]
    by simp
  have len: "2 \<le> length ?roster"
    by (simp add: create_competition_bots_def)
  have complete: "\<forall>g < nat 3. game_completes ?play ?roster 10 g"
    by (simp add: game_completes_def create_competition_bots_def)
  from entry_guard [of ?roster 10 "\<lambda>bots n. Inr []" 3 ?play] len complete
  have big: "constructed (run_competition_with_gui ?roster 10 (\<lambda>bots n. Inr [])) =
        [(?roster, 10)] \<and>
      constructed (run_competition_headless ?roster 10 3 ?play) = replicate (nat 3) (?roster, 10)"
    by blast
  from small big show ?thesis
    by (simp add: numeral_3_eq_3)
qed

text \<open>
  C5 as stated fails for \<^verbatim>\<open>run_competition_headless\<close>: with the three competition
  bots and \<open>num_games = 0\<close> the loop over the games is not entered and no game is
  constructed.
\<close>

theorem entry_guard_counterexample:
  "constructed (run_competition_headless (map snd create_competition_bots) 10 0
     (\<lambda>g bots n. Inr (zip bots [30, 50, - 20]))) = []"
  by (simp add: run_competition_headless_def create_competition_bots_def Let_def)

section \<open>Properties of the engine as specified\<close>

subsection \<open>Ranking\<close>










subsection \<open>Scoring\<close>

text \<open>
  C7. For every bid and number of tricks won in a round with number \<open>round_num\<close>, the base
  round score is \<open>20 * round_num\<close> when \<open>bid = 0\<close> and no trick was won;
  \<open>- 10 * round_num * won\<close> when \<open>bid = 0\<close> and tricks were won; \<open>20 * bid\<close> plus the card-value
  bonuses when \<open>bid > 0\<close> was met; and \<open>- 10 * |bid - won|\<close> when \<open>bid > 0\<close> was missed. The
  score of a player of the game is this function of the player's bid and tricks won in
  the round state and of the bonuses of the tricks the player won.
\<close>

theorem base_round_score:
  "(bid = 0 \<and> won = 0 \<longrightarrow> round_score round_num bid won bonus = Inr (20 * round_num)) \<and>
   (bid = 0 \<and> 0 < won \<longrightarrow> round_score round_num bid won bonus = Inr (- 10 * round_num * won)) \<and>
   (0 < bid \<and> won = bid \<longrightarrow> round_score round_num bid won bonus = Inr (20 * bid + bonus)) \<and>
   (0 < bid \<and> won \<noteq> bid \<longrightarrow> round_score round_num bid won bonus = Inr (- 10 * \<bar>bid - won\<bar>)) \<and>
   (bids (state game) player = Some bid \<and> tricks_won (state game) player = Some won \<longrightarrow>
      calculate_score trick_bonus game player =
        round_score (current_round game) bid won
          (sum_list (map trick_bonus
             (tricks_won_by (trump game) player (tricks (state game))))))"
  by (simp add: round_score_def calculate_score_def)

theorem base_round_score_witness:
  "round_score 1 0 0 0 = Inr 20 \<and> round_score 3 2 2 0 = Inr 40 \<and>
   round_score 2 1 0 0 = Inr (- 10) \<and> round_score 4 0 2 0 = Inr (- 80)"
  using base_round_score [of 0 0 1 0, THEN conjunct1]
    base_round_score [of 2 2 3 0, THEN conjunct2, THEN conjunct2, THEN conjunct1]
    base_round_score [of 1 0 2 0, THEN conjunct2, THEN conjunct2, THEN conjunct2, THEN conjunct1]
    base_round_score [of 0 2 4 0, THEN conjunct2, THEN conjunct1]
  by simp

end
